theory Spec2Isabelle
  imports Complex_Main "HOL-Library.Multiset"
begin

section \<open>The implied P/E calculator of \<^verbatim>\<open>Implied_PE_Multiple.py\<close>\<close>

text \<open>
  The class \<^verbatim>\<open>ImpliedPECalculator\<close> has no fields, so its three methods are modelled as
  functions of their arguments, at two levels.

  The formula, the aggregation over the peers and the shape of the grid are studied in
  exact arithmetic: Python numbers (\<^verbatim>\<open>int\<close> and \<^verbatim>\<open>float\<close>) are idealised as the reals, and
  the non-finite floats (\<^verbatim>\<open>inf\<close>, \<^verbatim>\<open>nan\<close>, \<^verbatim>\<open>-0.0\<close>) are not inputs. The one non-finite
  value the program can produce from finite inputs, the \<^verbatim>\<open>nan\<close> that numpy returns for the
  median of no values, is kept as a value of its own in the result type of the median.

  What depends on the numbers being Python's own, the failures of the arithmetic at
  extreme magnitudes and the text of the labels, is studied on Python's ints and binary64
  floats with their correctly rounded operations: the functions whose names end in
  \<open>_py\<close>.

  Exceptions are values: a method returns \<open>Inl\<close> of the exception or \<open>Inr\<close> of its result.
\<close>

datatype py_error = ZeroDivisionError | OverflowError

subsection \<open>\<^verbatim>\<open>calculate_implied_pe\<close>\<close>

text \<open>
  \<^verbatim>\<open>
  def calculate_implied_pe(self, current_price, current_eps, growth_rate, payout_ratio=0):
      retention_ratio = 1 - payout_ratio
      forward_eps = current_eps * (1 + growth_rate)
      implied_pe = current_price / forward_eps
      return implied_pe
  \<close>
  Python's \<^verbatim>\<open>/\<close> raises \<^verbatim>\<open>ZeroDivisionError\<close> on a zero divisor, for \<^verbatim>\<open>int\<close> and for
  \<^verbatim>\<open>float\<close>. A call that leaves \<^verbatim>\<open>payout_ratio\<close> out passes its default, 0.
\<close>

definition calculate_implied_pe :: "real \<Rightarrow> real \<Rightarrow> real \<Rightarrow> real \<Rightarrow> py_error + real" where
  "calculate_implied_pe current_price current_eps growth_rate payout_ratio =
     (let retention_ratio = 1 - payout_ratio;
          forward_eps = current_eps * (1 + growth_rate)
      in if forward_eps = 0 then Inl ZeroDivisionError
         else Inr (current_price / forward_eps))"

subsection \<open>Dictionaries and numpy's median\<close>

text \<open>
  A Python \<^verbatim>\<open>dict\<close> keeps its keys in insertion order and holds each key once: it is an
  association list whose keys are distinct. \<^verbatim>\<open>d[k] = v\<close> overwrites the value of a key
  that is present, in place, and appends a new key at the end.
\<close>

fun dict_setitem :: "'k \<Rightarrow> 'v \<Rightarrow> ('k \<times> 'v) list \<Rightarrow> ('k \<times> 'v) list" where
  "dict_setitem k v [] = [(k, v)]"
| "dict_setitem k v (p # ps) = (if fst p = k then (k, v) # ps else p # dict_setitem k v ps)"

definition dict_values :: "('k \<times> 'v) list \<Rightarrow> 'v list" where
  "dict_values d = map snd d"

text \<open>
  The result of \<^verbatim>\<open>np.median\<close> is a \<^verbatim>\<open>numpy.float64\<close>: a number, or \<^verbatim>\<open>nan\<close>.
\<close>

datatype float64 = NaN | Num real

text \<open>
  Basic slicing \<^verbatim>\<open>a[start:stop]\<close> of a one-dimensional array: a negative bound counts
  from the end, and both bounds are clipped to the array.
\<close>

definition slice_bound :: "nat \<Rightarrow> int \<Rightarrow> nat" where
  "slice_bound n i = (if i < 0 then nat (max 0 (int n + i)) else min n (nat i))"

definition py_slice :: "'a list \<Rightarrow> int \<Rightarrow> int \<Rightarrow> 'a list" where
  "py_slice a start stop =
     (let s = slice_bound (length a) start; e = slice_bound (length a) stop
      in take (e - s) (drop s a))"

text \<open>
  \<^verbatim>\<open>np.mean\<close> of an empty array is \<^verbatim>\<open>nan\<close> (numpy warns \<^verbatim>\<open>Mean of empty slice\<close> and
  raises nothing); otherwise the sum over the count.
\<close>

definition np_mean :: "real list \<Rightarrow> float64" where
  "np_mean a = (if a = [] then NaN else Num (sum_list a / real (length a)))"

text \<open>
  \<^verbatim>\<open>np.median\<close> of a one-dimensional array, after numpy's \<^verbatim>\<open>_median\<close>:
  \<^verbatim>\<open>
  part = partition(a, kth)
  index = part.shape[axis] // 2
  if part.shape[axis] % 2 == 1:
      indexer[axis] = slice(index, index+1)
  else:
      indexer[axis] = slice(index-1, index+1)
  rout = mean(part[indexer], axis=axis, out=out)
  \<close>
  \<^verbatim>\<open>partition\<close> puts at the positions \<^verbatim>\<open>kth\<close> (the middle ones) the elements that a
  full sort puts there, which are the only ones read; it is modelled by \<open>sort\<close>.
\<close>

definition np_median :: "real list \<Rightarrow> float64" where
  "np_median a =
     (let part = sort a;
          index = int (length part) div 2
      in if length part mod 2 = 1 then np_mean (py_slice part index (index + 1))
         else np_mean (py_slice part (index - 1) (index + 1)))"

subsection \<open>\<^verbatim>\<open>calculate_industry_implied_pe\<close>\<close>

text \<open>
  \<^verbatim>\<open>
  pe_multiples = {}
  for company, (price, eps, growth) in peer_data.items():
      pe_multiples[company] = self.calculate_implied_pe(price, eps, growth)
  median_pe = np.median(list(pe_multiples.values()))
  return {'individual_multiples': pe_multiples, 'median_pe': median_pe}
  \<close>
  The loop is \<open>pe_loop\<close>, over the items still to visit and the dictionary built so far;
  an exception of the call in its body leaves the loop and the method.
\<close>

type_synonym peer = "real \<times> real \<times> real"

fun pe_loop :: "(string \<times> peer) list \<Rightarrow> (string \<times> real) list \<Rightarrow> py_error + (string \<times> real) list" where
  "pe_loop [] pe_multiples = Inr pe_multiples"
| "pe_loop ((company, price, eps, growth) # items) pe_multiples =
     (case calculate_implied_pe price eps growth 0 of
        Inl e \<Rightarrow> Inl e
      | Inr pe \<Rightarrow> pe_loop items (dict_setitem company pe pe_multiples))"

record industry_pe =
  individual_multiples :: "(string \<times> real) list"
  median_pe :: float64

definition calculate_industry_implied_pe :: "(string \<times> peer) list \<Rightarrow> py_error + industry_pe" where
  "calculate_industry_implied_pe peer_data =
     (case pe_loop peer_data [] of
        Inl e \<Rightarrow> Inl e
      | Inr pe_multiples \<Rightarrow>
          Inr \<lparr>individual_multiples = pe_multiples,
               median_pe = np_median (dict_values pe_multiples)\<rparr>)"

subsection \<open>Python's own numbers\<close>

text \<open>
  A Python number is an \<^verbatim>\<open>int\<close>, of any size, or a \<^verbatim>\<open>float\<close>: a binary64 value, which is
  finite (given here by its real value; the two zeros are identified), an infinity or
  \<^verbatim>\<open>nan\<close>.
\<close>

datatype pyfloat = Fin real | PInf | NInf | PyNaN

datatype pynum = PyInt int | PyFloat pyfloat

text \<open>
  Rounding to the nearest integer, a tie going to the even one.
\<close>

definition round_half_even :: "real \<Rightarrow> int" where
  "round_half_even y =
     (let f = \<lfloor>y\<rfloor>; r = y - of_int f
      in if r < 1 / 2 then f else if 1 / 2 < r then f + 1 else if even f then f else f + 1)"

text \<open>
  \<open>rnd x\<close> is the float nearest to the real \<open>x\<close>, a tie going to the even significand: the
  result of every correctly rounded operation. \<open>binade\<close> finds by bisection the exponent
  \<open>e\<close> of the power of two at or below the magnitude of \<open>x\<close>, \<open>-1022\<close> at least (below it the
  floats are subnormal); the floats of that binade are the multiples of \<open>2 powi (e - 52)\<close>.
  A result of magnitude \<open>2 ^ 1024\<close> or more is an infinity.
\<close>

fun binade_from :: "int list \<Rightarrow> int \<Rightarrow> real \<Rightarrow> int" where
  "binade_from [] lo ax = lo"
| "binade_from (w # ws) lo ax =
     (if 2 powi (lo + w) \<le> ax then binade_from ws (lo + w) ax else binade_from ws lo ax)"

definition binade :: "real \<Rightarrow> int" where
  "binade ax = binade_from [1024, 512, 256, 128, 64, 32, 16, 8, 4, 2, 1] (- 1022) ax"

definition rnd :: "real \<Rightarrow> pyfloat" where
  "rnd x =
     (if 2 ^ 1024 \<le> \<bar>x\<bar> then (if 0 < x then PInf else NInf)
      else let q = 2 powi (binade \<bar>x\<bar> - 52);
               y = of_int (round_half_even (x / q)) * q
           in if 2 ^ 1024 \<le> \<bar>y\<bar> then (if 0 < x then PInf else NInf) else Fin y)"

text \<open>A decimal literal such as \<^verbatim>\<open>0.10\<close> denotes the float nearest to it.\<close>

definition float_literal :: "real \<Rightarrow> pynum" where
  "float_literal x = PyFloat (rnd x)"

text \<open>
  The conversion of an operand to \<^verbatim>\<open>float\<close>, which every operation with a float operand
  applies to both operands first: an int is rounded, and an int whose rounding is beyond
  the finite floats raises \<^verbatim>\<open>OverflowError\<close> (\<^verbatim>\<open>int too large to convert to float\<close>).
\<close>

definition to_double :: "pynum \<Rightarrow> py_error + pyfloat" where
  "to_double a =
     (case a of
        PyFloat d \<Rightarrow> Inr d
      | PyInt n \<Rightarrow> (case rnd (of_int n) of Fin v \<Rightarrow> Inr (Fin v) | _ \<Rightarrow> Inl OverflowError))"

text \<open>
  The float operations of IEEE 754: correctly rounded on finite operands, an overflow
  giving an infinity and raising nothing, with the usual rules for infinities and \<^verbatim>\<open>nan\<close>.
\<close>

definition fl_negative :: "pyfloat \<Rightarrow> bool" where
  "fl_negative d = (case d of Fin a \<Rightarrow> a < 0 | NInf \<Rightarrow> True | _ \<Rightarrow> False)"

definition fl_neg :: "pyfloat \<Rightarrow> pyfloat" where
  "fl_neg d = (case d of Fin a \<Rightarrow> Fin (- a) | PInf \<Rightarrow> NInf | NInf \<Rightarrow> PInf | PyNaN \<Rightarrow> PyNaN)"

fun fl_add :: "pyfloat \<Rightarrow> pyfloat \<Rightarrow> pyfloat" where
  "fl_add (Fin a) (Fin b) = rnd (a + b)"
| "fl_add PyNaN d = PyNaN"
| "fl_add d PyNaN = PyNaN"
| "fl_add PInf NInf = PyNaN"
| "fl_add NInf PInf = PyNaN"
| "fl_add PInf d = PInf"
| "fl_add d PInf = PInf"
| "fl_add NInf d = NInf"
| "fl_add d NInf = NInf"

fun fl_mul :: "pyfloat \<Rightarrow> pyfloat \<Rightarrow> pyfloat" where
  "fl_mul (Fin a) (Fin b) = rnd (a * b)"
| "fl_mul PyNaN d = PyNaN"
| "fl_mul d PyNaN = PyNaN"
| "fl_mul c d =
     (if c = Fin 0 \<or> d = Fin 0 then PyNaN
      else if fl_negative c = fl_negative d then PInf else NInf)"

text \<open>The quotient by a divisor that is not zero; \<open>float_div\<close> below calls it with no other.\<close>

fun fl_div :: "pyfloat \<Rightarrow> pyfloat \<Rightarrow> pyfloat" where
  "fl_div (Fin a) (Fin b) = rnd (a / b)"
| "fl_div PyNaN d = PyNaN"
| "fl_div d PyNaN = PyNaN"
| "fl_div (Fin a) d = Fin 0"
| "fl_div c (Fin b) = (if fl_negative c = (b < 0) then PInf else NInf)"
| "fl_div c d = PyNaN"

text \<open>
  \<^verbatim>\<open>float.__truediv__\<close> raises \<^verbatim>\<open>ZeroDivisionError\<close> on a zero divisor, after both operands
  have been converted.
\<close>

definition float_div :: "pyfloat \<Rightarrow> pyfloat \<Rightarrow> py_error + pyfloat" where
  "float_div a b = (if b = Fin 0 then Inl ZeroDivisionError else Inr (fl_div a b))"

definition float_op ::
    "(pyfloat \<Rightarrow> pyfloat \<Rightarrow> py_error + pyfloat) \<Rightarrow> pynum \<Rightarrow> pynum \<Rightarrow> py_error + pynum" where
  "float_op f v w =
     (case to_double v of
        Inl e \<Rightarrow> Inl e
      | Inr a \<Rightarrow>
          (case to_double w of
             Inl e \<Rightarrow> Inl e
           | Inr b \<Rightarrow> (case f a b of Inl e \<Rightarrow> Inl e | Inr c \<Rightarrow> Inr (PyFloat c))))"

text \<open>
  The operators \<^verbatim>\<open>+\<close>, \<^verbatim>\<open>-\<close>, \<^verbatim>\<open>*\<close> and \<^verbatim>\<open>/\<close>. Two ints are added, subtracted and multiplied
  exactly. The quotient of two ints is the float nearest to the exact quotient, and raises
  \<^verbatim>\<open>OverflowError\<close> when that is beyond the finite floats
  (\<^verbatim>\<open>integer division result too large for a float\<close>). With a float operand the float
  operation is applied.
\<close>

fun py_add :: "pynum \<Rightarrow> pynum \<Rightarrow> py_error + pynum" where
  "py_add (PyInt m) (PyInt n) = Inr (PyInt (m + n))"
| "py_add v w = float_op (\<lambda>a b. Inr (fl_add a b)) v w"

fun py_sub :: "pynum \<Rightarrow> pynum \<Rightarrow> py_error + pynum" where
  "py_sub (PyInt m) (PyInt n) = Inr (PyInt (m - n))"
| "py_sub v w = float_op (\<lambda>a b. Inr (fl_add a (fl_neg b))) v w"

fun py_mul :: "pynum \<Rightarrow> pynum \<Rightarrow> py_error + pynum" where
  "py_mul (PyInt m) (PyInt n) = Inr (PyInt (m * n))"
| "py_mul v w = float_op (\<lambda>a b. Inr (fl_mul a b)) v w"

fun py_truediv :: "pynum \<Rightarrow> pynum \<Rightarrow> py_error + pynum" where
  "py_truediv (PyInt m) (PyInt n) =
     (if n = 0 then Inl ZeroDivisionError
      else (case rnd (of_int m / of_int n) of
              Fin v \<Rightarrow> Inr (PyFloat (Fin v))
            | _ \<Rightarrow> Inl OverflowError))"
| "py_truediv v w = float_op float_div v w"

text \<open>
  \<^verbatim>\<open>calculate_implied_pe\<close> on these numbers, statement by statement: the retention ratio,
  the sum \<^verbatim>\<open>1 + growth_rate\<close>, the forward EPS, the quotient.
\<close>

definition calculate_implied_pe_py :: "pynum \<Rightarrow> pynum \<Rightarrow> pynum \<Rightarrow> pynum \<Rightarrow> py_error + pynum" where
  "calculate_implied_pe_py current_price current_eps growth_rate payout_ratio =
     (case py_sub (PyInt 1) payout_ratio of
        Inl e \<Rightarrow> Inl e
      | Inr retention_ratio \<Rightarrow>
          (case py_add (PyInt 1) growth_rate of
             Inl e \<Rightarrow> Inl e
           | Inr grown \<Rightarrow>
               (case py_mul current_eps grown of
                  Inl e \<Rightarrow> Inl e
                | Inr forward_eps \<Rightarrow> py_truediv current_price forward_eps)))"

subsection \<open>The format \<^verbatim>\<open>.1%\<close>\<close>

text \<open>
  The format specification \<^verbatim>\<open>.1%\<close> converts the number to \<^verbatim>\<open>float\<close>, multiplies it by 100
  as a float, writes the product in fixed notation with one digit after the point,
  correctly rounded (a tie goes to the even digit), and appends \<^verbatim>\<open>%\<close>. A negative product
  keeps its sign when it rounds to zero; an infinite one is written \<^verbatim>\<open>inf\<close>, and \<^verbatim>\<open>nan\<close>
  is written \<^verbatim>\<open>nan\<close>.
\<close>

definition digit_char :: "nat \<Rightarrow> char" where
  "digit_char d = ''0123456789'' ! d"

fun str_nat :: "nat \<Rightarrow> string" where
  "str_nat n = (if n < 10 then [digit_char n] else str_nat (n div 10) @ [digit_char (n mod 10)])"

declare str_nat.simps [simp del]

definition format_fixed1 :: "real \<Rightarrow> string" where
  "format_fixed1 v =
     (let t = nat (round_half_even (\<bar>v\<bar> * 10))
      in (if v < 0 then ''-'' else '''') @ str_nat (t div 10) @ ''.'' @ [digit_char (t mod 10)])"

definition format_float_pct :: "pyfloat \<Rightarrow> string" where
  "format_float_pct d =
     (case fl_mul d (Fin 100) of
        Fin v \<Rightarrow> format_fixed1 v @ ''%''
      | PInf \<Rightarrow> ''inf%''
      | NInf \<Rightarrow> ''-inf%''
      | PyNaN \<Rightarrow> ''nan%'')"

definition format_pct :: "pynum \<Rightarrow> py_error + string" where
  "format_pct x = (case to_double x of Inl e \<Rightarrow> Inl e | Inr d \<Rightarrow> Inr (format_float_pct d))"

text \<open>In the exact model a scenario value is labelled as the float nearest to it.\<close>

definition format_pct1 :: "real \<Rightarrow> string" where
  "format_pct1 x = format_float_pct (rnd x)"

subsection \<open>\<^verbatim>\<open>sensitivity_analysis\<close>\<close>

text \<open>
  \<^verbatim>\<open>pandas.DataFrame(rows, index=..., columns=...)\<close>: the rows of the table with a label
  for each row and a label for each column. Labels may repeat. The method always passes
  as many row labels as rows and as many column labels as every row has cells.
\<close>

record data_frame =
  df_values :: "real list list"
  df_index :: "string list"
  df_columns :: "string list"

text \<open>
  \<^verbatim>\<open>
  sensitivity_matrix = []
  for growth in growth_rates:
      row = []
      for payout in payout_ratios:
          pe = self.calculate_implied_pe(current_price, current_eps, growth, payout)
          row.append(pe)
      sensitivity_matrix.append(row)
  return pd.DataFrame(sensitivity_matrix,
                      index=[f'{g:.1%}' for g in growth_rates],
                      columns=[f'{p:.1%}' for p in payout_ratios])
  \<close>
  \<open>row_loop\<close> is the inner loop and \<open>matrix_loop\<close> the outer one, each over the scenarios
  still to visit and the list built so far.
\<close>

fun row_loop :: "real \<Rightarrow> real \<Rightarrow> real \<Rightarrow> real list \<Rightarrow> real list \<Rightarrow> py_error + real list" where
  "row_loop current_price current_eps growth [] row = Inr row"
| "row_loop current_price current_eps growth (payout # payout_ratios) row =
     (case calculate_implied_pe current_price current_eps growth payout of
        Inl e \<Rightarrow> Inl e
      | Inr pe \<Rightarrow> row_loop current_price current_eps growth payout_ratios (row @ [pe]))"

fun matrix_loop :: "real \<Rightarrow> real \<Rightarrow> real list \<Rightarrow> real list \<Rightarrow> real list list \<Rightarrow> py_error + real list list" where
  "matrix_loop current_price current_eps [] payout_ratios sensitivity_matrix = Inr sensitivity_matrix"
| "matrix_loop current_price current_eps (growth # growth_rates) payout_ratios sensitivity_matrix =
     (case row_loop current_price current_eps growth payout_ratios [] of
        Inl e \<Rightarrow> Inl e
      | Inr row \<Rightarrow>
          matrix_loop current_price current_eps growth_rates payout_ratios (sensitivity_matrix @ [row]))"

definition sensitivity_analysis :: "real \<Rightarrow> real \<Rightarrow> real list \<Rightarrow> real list \<Rightarrow> py_error + data_frame" where
  "sensitivity_analysis current_price current_eps growth_rates payout_ratios =
     (case matrix_loop current_price current_eps growth_rates payout_ratios [] of
        Inl e \<Rightarrow> Inl e
      | Inr sensitivity_matrix \<Rightarrow>
          Inr \<lparr>df_values = sensitivity_matrix,
               df_index = map format_pct1 growth_rates,
               df_columns = map format_pct1 payout_ratios\<rparr>)"

text \<open>
  The same method on Python's own numbers. The list comprehensions of the labels are
  evaluated after the loops, the row labels first; a label that cannot be formatted
  raises.
\<close>

fun format_all :: "pynum list \<Rightarrow> py_error + string list" where
  "format_all [] = Inr []"
| "format_all (x # xs) =
     (case format_pct x of
        Inl e \<Rightarrow> Inl e
      | Inr label \<Rightarrow> (case format_all xs of Inl e \<Rightarrow> Inl e | Inr labels \<Rightarrow> Inr (label # labels)))"

record py_data_frame =
  pdf_values :: "pynum list list"
  pdf_index :: "string list"
  pdf_columns :: "string list"

fun row_loop_py :: "pynum \<Rightarrow> pynum \<Rightarrow> pynum \<Rightarrow> pynum list \<Rightarrow> pynum list \<Rightarrow> py_error + pynum list" where
  "row_loop_py current_price current_eps growth [] row = Inr row"
| "row_loop_py current_price current_eps growth (payout # payout_ratios) row =
     (case calculate_implied_pe_py current_price current_eps growth payout of
        Inl e \<Rightarrow> Inl e
      | Inr pe \<Rightarrow> row_loop_py current_price current_eps growth payout_ratios (row @ [pe]))"

fun matrix_loop_py ::
    "pynum \<Rightarrow> pynum \<Rightarrow> pynum list \<Rightarrow> pynum list \<Rightarrow> pynum list list \<Rightarrow> py_error + pynum list list" where
  "matrix_loop_py current_price current_eps [] payout_ratios sensitivity_matrix = Inr sensitivity_matrix"
| "matrix_loop_py current_price current_eps (growth # growth_rates) payout_ratios sensitivity_matrix =
     (case row_loop_py current_price current_eps growth payout_ratios [] of
        Inl e \<Rightarrow> Inl e
      | Inr row \<Rightarrow>
          matrix_loop_py current_price current_eps growth_rates payout_ratios (sensitivity_matrix @ [row]))"

definition sensitivity_analysis_py ::
    "pynum \<Rightarrow> pynum \<Rightarrow> pynum list \<Rightarrow> pynum list \<Rightarrow> py_error + py_data_frame" where
  "sensitivity_analysis_py current_price current_eps growth_rates payout_ratios =
     (case matrix_loop_py current_price current_eps growth_rates payout_ratios [] of
        Inl e \<Rightarrow> Inl e
      | Inr sensitivity_matrix \<Rightarrow>
          (case format_all growth_rates of
             Inl e \<Rightarrow> Inl e
           | Inr index \<Rightarrow>
               (case format_all payout_ratios of
                  Inl e \<Rightarrow> Inl e
                | Inr columns \<Rightarrow>
                    Inr \<lparr>pdf_values = sensitivity_matrix, pdf_index = index, pdf_columns = columns\<rparr>)))"

subsection \<open>Notions of the specification\<close>


text \<open>The entry that the aggregate holds for a peer whose forward EPS is not zero.\<close>

definition pe_entry :: "string \<times> peer \<Rightarrow> string \<times> real" where
  "pe_entry item = (case item of (company, price, eps, growth) \<Rightarrow> (company, price / (eps * (1 + growth))))"

text \<open>A Python number that compares equal to zero.\<close>

definition py_is_zero :: "pynum \<Rightarrow> bool" where
  "py_is_zero a = (a = PyInt 0 \<or> a = PyFloat (Fin 0))"

text \<open>The number that a string of decimal digits denotes.\<close>

definition dec_value :: "string \<Rightarrow> nat" where
  "dec_value s = foldl (\<lambda>a c. 10 * a + (of_char c - 48)) 0 s"

text \<open>Weights of a bisection: each is one more than the sum of those after it.\<close>

fun halving :: "int list \<Rightarrow> bool" where
  "halving [] = True"
| "halving (w # ws) = (w = sum_list ws + 1 \<and> halving ws)"

section \<open>Facts about the model\<close>

subsection \<open>The leaf formula\<close>

lemma calculate_implied_pe_nonzero:
  "current_eps * (1 + growth_rate) \<noteq> 0 \<Longrightarrow>
   calculate_implied_pe current_price current_eps growth_rate payout_ratio =
     Inr (current_price / (current_eps * (1 + growth_rate)))"
  by (simp add: calculate_implied_pe_def)

lemma calculate_implied_pe_zero:
  "current_eps * (1 + growth_rate) = 0 \<Longrightarrow>
   calculate_implied_pe current_price current_eps growth_rate payout_ratio = Inl ZeroDivisionError"
  by (simp add: calculate_implied_pe_def)

subsection \<open>The loop over the peers\<close>

lemma dict_setitem_fresh: "k \<notin> fst ` set d \<Longrightarrow> dict_setitem k v d = d @ [(k, v)]"
  by (induction d) auto

lemma pe_loop_ok:
  "distinct (map fst items) \<Longrightarrow> fst ` set items \<inter> fst ` set acc = {} \<Longrightarrow>
   \<forall>(company, price, eps, growth)\<in>set items. eps * (1 + growth) \<noteq> 0 \<Longrightarrow>
   pe_loop items acc = Inr (acc @ map pe_entry items)"
proof (induction items arbitrary: acc)
  case Nil
  then show ?case by simp
next
  case (Cons item items)
  obtain company price eps growth where item: "item = (company, price, eps, growth)"
    by (cases item) auto
  let ?pe = "price / (eps * (1 + growth))"
  from Cons.prems(3) item have nz: "eps * (1 + growth) \<noteq> 0" by simp
  from Cons.prems(2) item have fresh: "company \<notin> fst ` set acc" by auto
  have keys: "fst ` set items \<inter> fst ` set (acc @ [(company, ?pe)]) = {}"
    using Cons.prems(1,2) item by auto
  have "pe_loop (item # items) acc = pe_loop items (acc @ [(company, ?pe)])"
    using item nz fresh by (simp add: calculate_implied_pe_nonzero dict_setitem_fresh)
  also have "\<dots> = Inr ((acc @ [(company, ?pe)]) @ map pe_entry items)"
    using Cons.prems(1,3) keys by (intro Cons.IH) auto
  finally show ?case by (simp add: item pe_entry_def)
qed

lemma pe_loop_zero:
  "\<exists>(company, price, eps, growth)\<in>set items. eps * (1 + growth) = 0 \<Longrightarrow>
   pe_loop items acc = Inl ZeroDivisionError"
proof (induction items arbitrary: acc)
  case Nil
  then show ?case by simp
next
  case (Cons item items)
  obtain company price eps growth where item: "item = (company, price, eps, growth)"
    by (cases item) auto
  show ?case
  proof (cases "eps * (1 + growth) = 0")
    case True
    then show ?thesis by (simp add: item calculate_implied_pe_zero)
  next
    case False
    with Cons.prems item
    have "\<exists>(company, price, eps, growth)\<in>set items. eps * (1 + growth) = 0" by auto
    then have "pe_loop items (dict_setitem company (price / (eps * (1 + growth))) acc) = Inl ZeroDivisionError"
      by (rule Cons.IH)
    with False show ?thesis by (simp add: item calculate_implied_pe_nonzero)
  qed
qed

subsection \<open>The median\<close>

lemma sort_mset_eq: "mset xs = mset ys \<Longrightarrow> sort xs = sort ys"
  by (metis sorted_list_of_multiset_mset)

lemma np_median_mset: "mset xs = mset ys \<Longrightarrow> np_median xs = np_median ys"
  by (simp add: np_median_def sort_mset_eq [of xs ys])




subsection \<open>The aggregate on well-formed peers\<close>

lemma industry_ok:
  assumes "distinct (map fst peer_data)"
    and "\<forall>(company, price, eps, growth)\<in>set peer_data. eps * (1 + growth) \<noteq> 0"
  shows "calculate_industry_implied_pe peer_data =
           Inr \<lparr>individual_multiples = map pe_entry peer_data,
                median_pe = np_median (map snd (map pe_entry peer_data))\<rparr>"
  using pe_loop_ok [of peer_data "[]"] assms
  by (simp add: calculate_industry_implied_pe_def dict_values_def)

subsection \<open>The loops of the sensitivity grid\<close>

lemma row_loop_ok:
  "payout_ratios = [] \<or> current_eps * (1 + growth) \<noteq> 0 \<Longrightarrow>
   row_loop current_price current_eps growth payout_ratios row =
     Inr (row @ map (\<lambda>payout. current_price / (current_eps * (1 + growth))) payout_ratios)"
  by (induction payout_ratios arbitrary: row) (auto simp: calculate_implied_pe_nonzero)

lemma row_loop_zero:
  "payout_ratios \<noteq> [] \<Longrightarrow> current_eps * (1 + growth) = 0 \<Longrightarrow>
   row_loop current_price current_eps growth payout_ratios row = Inl ZeroDivisionError"
  by (cases payout_ratios) (auto simp: calculate_implied_pe_zero)


lemma matrix_loop_zero:
  "payout_ratios \<noteq> [] \<Longrightarrow> \<exists>growth\<in>set growth_rates. current_eps * (1 + growth) = 0 \<Longrightarrow>
   matrix_loop current_price current_eps growth_rates payout_ratios sensitivity_matrix =
     Inl ZeroDivisionError"
proof (induction growth_rates arbitrary: sensitivity_matrix)
  case Nil
  then show ?case by simp
next
  case (Cons growth growth_rates)
  show ?case
  proof (cases "current_eps * (1 + growth) = 0")
    case True
    with Cons.prems(1) show ?thesis by (simp add: row_loop_zero)
  next
    case False
    with Cons.prems(2) have "\<exists>growth\<in>set growth_rates. current_eps * (1 + growth) = 0" by auto
    with Cons.prems(1) Cons.IH False show ?thesis
      by (simp add: row_loop_ok)
  qed
qed

lemma sensitivity_analysis_raises:
  "payout_ratios \<noteq> [] \<Longrightarrow> \<exists>growth\<in>set growth_rates. current_eps * (1 + growth) = 0 \<Longrightarrow>
   sensitivity_analysis current_price current_eps growth_rates payout_ratios = Inl ZeroDivisionError"
  by (simp add: sensitivity_analysis_def matrix_loop_zero)

subsection \<open>Rounding to the nearest integer\<close>

lemma round_half_even_close: "\<bar>of_int (round_half_even y) - y\<bar> \<le> 1 / 2"
  unfolding round_half_even_def Let_def by (auto; linarith)

lemma round_half_even_tie: "\<bar>of_int (round_half_even y) - y\<bar> = 1 / 2 \<Longrightarrow> even (round_half_even y)"
  unfolding round_half_even_def Let_def by (auto split: if_splits; linarith)

lemma round_half_even_unique:
  assumes "\<bar>of_int m - y\<bar> \<le> 1 / 2" and "\<bar>of_int m - y\<bar> = 1 / 2 \<longrightarrow> even m"
  shows "round_half_even y = m"
proof (rule ccontr)
  let ?r = "round_half_even y"
  assume ne: "?r \<noteq> m"
  have c: "\<bar>of_int ?r - y\<bar> \<le> 1 / 2" by (rule round_half_even_close)
  have "\<bar>(of_int ?r :: real) - of_int m\<bar> \<le> 1" using c assms(1) by linarith
  then have "\<bar>?r - m\<bar> \<le> 1" by (metis of_int_diff of_int_abs of_int_le_1_iff)
  with ne have d: "?r = m + 1 \<or> ?r = m - 1" by linarith
  then have "\<bar>(of_int ?r :: real) - of_int m\<bar> = 1" by auto
  then have "\<bar>of_int ?r - y\<bar> = 1 / 2 \<and> \<bar>of_int m - y\<bar> = 1 / 2"
    using c assms(1) by linarith
  then have "even ?r" "even m" using round_half_even_tie assms(2) by blast+
  with d show False by auto
qed

lemma round_half_even_zero_iff: "round_half_even y = 0 \<longleftrightarrow> \<bar>y\<bar> \<le> 1 / 2"
proof
  assume "round_half_even y = 0"
  with round_half_even_close [of y] show "\<bar>y\<bar> \<le> 1 / 2" by simp
next
  assume "\<bar>y\<bar> \<le> 1 / 2"
  then show "round_half_even y = 0" by (intro round_half_even_unique) auto
qed

lemma round_half_even_minus: "round_half_even (- y) = - round_half_even y"
proof (rule round_half_even_unique)
  show "\<bar>of_int (- round_half_even y) - (- y)\<bar> \<le> 1 / 2"
    using round_half_even_close [of y] by (simp add: abs_minus_commute)
  show "\<bar>of_int (- round_half_even y) - (- y)\<bar> = 1 / 2 \<longrightarrow> even (- round_half_even y)"
    using round_half_even_tie [of y] by (simp add: abs_minus_commute)
qed

lemma round_half_even_abs: "\<bar>round_half_even t\<bar> = round_half_even \<bar>t\<bar>"
proof (cases "0 \<le> t")
  case True
  have "- 1 / 2 \<le> (of_int (round_half_even t) :: real)"
    using round_half_even_close [of t] True by linarith
  then have "0 \<le> round_half_even t" by linarith
  with True show ?thesis by simp
next
  case False
  have "(of_int (round_half_even t) :: real) \<le> 1 / 2"
    using round_half_even_close [of t] False by linarith
  then have "round_half_even t \<le> 0" by linarith
  with False show ?thesis by (simp add: round_half_even_minus)
qed

subsection \<open>Rounding to the nearest float\<close>

lemma binade_from_lower: "2 powi lo \<le> ax \<Longrightarrow> 2 powi (binade_from ws lo ax) \<le> ax"
  by (induction ws arbitrary: lo) auto

lemma binade_from_small:
  "\<forall>w\<in>set ws. 1 \<le> w \<Longrightarrow> ax < 2 powi (lo + 1) \<Longrightarrow> binade_from ws lo ax = lo"
proof (induction ws)
  case Nil
  then show ?case by simp
next
  case (Cons w ws)
  then have "(2::real) powi (lo + 1) \<le> 2 powi (lo + w)"
    by (intro power_int_increasing) auto
  with Cons show ?case by auto
qed

lemma binade_from_upper:
  "halving ws \<Longrightarrow> ax < 2 powi (lo + sum_list ws + 1) \<Longrightarrow> ax < 2 powi (binade_from ws lo ax + 1)"
proof (induction ws arbitrary: lo)
  case Nil
  then show ?case by simp
next
  case (Cons w ws)
  show ?case
  proof (cases "2 powi (lo + w) \<le> ax")
    case True
    have "ax < 2 powi (lo + w + sum_list ws + 1)"
      using Cons.prems(2) by (simp add: add.assoc)
    with Cons.prems(1) True show ?thesis by (simp add: Cons.IH)
  next
    case False
    with Cons.prems(1) have "ax < 2 powi (lo + sum_list ws + 1)" by (simp add: add.assoc)
    with Cons.prems(1) False show ?thesis by (simp add: Cons.IH)
  qed
qed

lemma binade_small: "ax < 2 powi (- 1021) \<Longrightarrow> binade ax = - 1022"
  unfolding binade_def by (rule binade_from_small) simp_all

lemma binade_lower: "2 powi (- 1022) \<le> ax \<Longrightarrow> 2 powi (binade ax) \<le> ax"
  unfolding binade_def by (rule binade_from_lower)

lemma binade_upper: "ax < 2 ^ 1024 \<Longrightarrow> ax < 2 powi (binade ax + 1)"
proof -
  assume "ax < 2 ^ 1024"
  also have "(2::real) ^ 1024 \<le> 2 powi 1026"
    by (simp add: power_increasing)
  finally have "ax < 2 powi (- 1022 + sum_list [1024, 512, 256, 128, 64, 32, 16, 8, 4, 2, 1] + 1)"
    by simp
  then show ?thesis unfolding binade_def by (intro binade_from_upper) simp_all
qed

lemma rnd_in_range:
  assumes "\<not> 2 ^ 1024 \<le> \<bar>x\<bar>"
  shows "rnd x =
    (if 2 ^ 1024 \<le> \<bar>real_of_int (round_half_even (x / 2 powi (binade \<bar>x\<bar> - 52))) * 2 powi (binade \<bar>x\<bar> - 52)\<bar>
     then (if 0 < x then PInf else NInf)
     else Fin (of_int (round_half_even (x / 2 powi (binade \<bar>x\<bar> - 52))) * 2 powi (binade \<bar>x\<bar> - 52)))"
  unfolding rnd_def Let_def using assms by (simp only: if_False)

lemma rnd_not_nan: "rnd x \<noteq> PyNaN"
  by (simp add: rnd_def Let_def)

lemma rnd_zero_iff: "rnd x = Fin 0 \<longleftrightarrow> \<bar>x\<bar> \<le> 1 / 2 ^ 1075"
proof (cases "2 ^ 1024 \<le> \<bar>x\<bar>")
  case True
  have "1 / 2 ^ 1075 \<le> (1::real)" by simp
  also have "(1::real) < 2 ^ 1024" by simp
  finally have "\<not> \<bar>x\<bar> \<le> 1 / 2 ^ 1075" using True by linarith
  with True show ?thesis by (simp add: rnd_def)
next
  case False
  define e where "e = binade \<bar>x\<bar>"
  define q :: real where "q = 2 powi (e - 52)"
  define m where "m = round_half_even (x / q)"
  have q: "0 < q" by (simp add: q_def)
  have form: "rnd x = (if 2 ^ 1024 \<le> \<bar>real_of_int m * q\<bar> then (if 0 < x then PInf else NInf)
      else Fin (of_int m * q))"
    unfolding m_def q_def e_def by (rule rnd_in_range [OF False])
  have z: "rnd x = Fin 0 \<longleftrightarrow> m = 0"
    using q by (auto simp: form split: if_splits)
  have "m = 0 \<longleftrightarrow> \<bar>x / q\<bar> \<le> 1 / 2"
    unfolding m_def by (rule round_half_even_zero_iff)
  also have "\<dots> \<longleftrightarrow> \<bar>x\<bar> \<le> q / 2"
    using q by (simp add: field_simps)
  finally have mz: "m = 0 \<longleftrightarrow> \<bar>x\<bar> \<le> q / 2" .
  show ?thesis
  proof (cases "\<bar>x\<bar> < 2 powi (- 1021)")
    case True
    then have "e = - 1022" unfolding e_def by (rule binade_small)
    then have "q / 2 = 1 / 2 ^ 1075" by (simp add: q_def power_int_minus_divide)
    with z mz show ?thesis by simp
  next
    case small: False
    have "(2::real) powi (- 1022) \<le> 2 powi (- 1021)" by (intro power_int_increasing) auto
    with small have "2 powi e \<le> \<bar>x\<bar>" unfolding e_def by (intro binade_lower) linarith
    moreover have "q / 2 < 2 powi e"
    proof -
      have "q < 2 powi e" unfolding q_def by (intro power_int_strict_increasing) auto
      with q show ?thesis by linarith
    qed
    ultimately have "\<not> \<bar>x\<bar> \<le> q / 2" by linarith
    moreover have "\<not> \<bar>x\<bar> \<le> 1 / 2 ^ 1075"
    proof -
      have "(2::real) powi (- 1075) < 2 powi (- 1021)" by (intro power_int_strict_increasing) auto
      then have "1 / 2 ^ 1075 < (2::real) powi (- 1021)" by (simp add: power_int_minus_divide)
      with small show ?thesis by linarith
    qed
    ultimately show ?thesis using z mz by simp
  qed
qed

lemma rnd_overflow_iff: "(rnd x = PInf \<or> rnd x = NInf) \<longleftrightarrow> 2 ^ 1024 - 2 ^ 970 \<le> \<bar>x\<bar>"
proof (cases "2 ^ 1024 \<le> \<bar>x\<bar>")
  case True
  have "(0::real) \<le> 2 ^ 970" by simp
  with True have "2 ^ 1024 - 2 ^ 970 \<le> \<bar>x\<bar>" by linarith
  with True show ?thesis by (auto simp: rnd_def)
next
  case False
  define ax where "ax = \<bar>x\<bar>"
  define e where "e = binade ax"
  define q :: real where "q = 2 powi (e - 52)"
  define m where "m = round_half_even (x / q)"
  define M where "M = round_half_even (ax / q)"
  define t where "t = ax / q"
  have q: "0 < q" by (simp add: q_def)
  have ax: "0 \<le> ax" "ax < 2 ^ 1024" using False by (simp_all add: ax_def)
  have form: "rnd x = (if 2 ^ 1024 \<le> \<bar>real_of_int m * q\<bar> then (if 0 < x then PInf else NInf)
      else Fin (of_int m * q))"
    unfolding m_def q_def e_def ax_def by (rule rnd_in_range [OF False])
  have "\<bar>m\<bar> = M"
    unfolding m_def M_def ax_def using q by (simp add: round_half_even_abs)
  then have "\<bar>real_of_int m * q\<bar> = of_int M * q"
    using q by (simp add: abs_mult flip: of_int_abs)
  with form have inf_iff: "(rnd x = PInf \<or> rnd x = NInf) \<longleftrightarrow> 2 ^ 1024 \<le> real_of_int M * q"
    by (auto split: if_splits)
  have up: "ax < 2 powi (e + 1)" unfolding e_def using ax(2) by (rule binade_upper)
  have scale: "(2::real) powi (e + 1) = 2 ^ 53 * q"
  proof -
    have "e + 1 = 53 + (e - 52)" by simp
    then have "(2::real) powi (e + 1) = 2 powi (53 + (e - 52))" by (simp only:)
    also have "\<dots> = 2 powi 53 * 2 powi (e - 52)" by (subst power_int_add) simp_all
    finally show ?thesis by (simp add: q_def)
  qed
  have up': "ax < 2 ^ 53 * q" using up unfolding scale .
  have t: "0 \<le> t" "t < 2 ^ 53" "ax = t * q"
    using up' q ax(1) by (simp_all add: t_def field_simps)
  have Mt: "\<bar>real_of_int M - t\<bar> \<le> 1 / 2"
    unfolding M_def t_def by (rule round_half_even_close)
  have M_le: "M \<le> 2 ^ 53"
  proof -
    have "real_of_int M < 2 ^ 53 + 1" using Mt t(2) by linarith
    then have "real_of_int M < real_of_int (2 ^ 53 + 1)" by simp
    then have "M < 2 ^ 53 + 1" by (simp only: of_int_less_iff)
    then show ?thesis by simp
  qed
  have e_le: "e \<le> 1023"
  proof (cases "2 powi (- 1022) \<le> ax")
    case True
    then have low: "2 powi e \<le> ax" unfolding e_def by (rule binade_lower)
    show ?thesis
    proof (rule ccontr)
      assume "\<not> e \<le> 1023"
      then have "(2::real) powi 1024 \<le> 2 powi e" by (intro power_int_increasing) auto
      with low ax(2) show False by simp
    qed
  next
    case small: False
    have "(2::real) powi (- 1022) \<le> 2 powi (- 1021)" by (intro power_int_increasing) auto
    with small have "ax < 2 powi (- 1021)" by linarith
    then have "e = - 1022" unfolding e_def by (rule binade_small)
    then show ?thesis by simp
  qed
  have q971: "e = 1023 \<Longrightarrow> q = 2 ^ 971" by (simp add: q_def)
  have c1: "(2::real) ^ 1024 = 2 ^ 53 * 2 ^ 971" by simp
  have c2: "(2::real) ^ 1024 - 2 ^ 970 = (2 ^ 53 - 1 / 2) * 2 ^ 971" by simp
  have c3: "(0::real) < 2 ^ 971" by simp
  show ?thesis
  proof
    assume "rnd x = PInf \<or> rnd x = NInf"
    with inf_iff have big: "2 ^ 1024 \<le> real_of_int M * q" by simp
    from M_le have "real_of_int M \<le> real_of_int (2 ^ 53)" by (simp only: of_int_le_iff)
    then have Mr: "real_of_int M \<le> 2 ^ 53" by simp
    have "real_of_int M * q \<le> 2 ^ 53 * q"
      using Mr q by (intro mult_right_mono) simp_all
    with big have b2: "(2::real) powi 1024 \<le> 2 powi (e + 1)" by (simp add: scale)
    have "e = 1023"
    proof (rule ccontr)
      assume "e \<noteq> 1023"
      with e_le have "(2::real) powi (e + 1) < 2 powi 1024"
        by (intro power_int_strict_increasing) auto
      with b2 show False by simp
    qed
    then have q': "q = 2 ^ 971" by (rule q971)
    have "(2::real) ^ 53 * 2 ^ 971 \<le> real_of_int M * 2 ^ 971" using big c1 q' by simp
    then have "(2::real) ^ 53 \<le> real_of_int M" using c3 by (simp only: mult_le_cancel_right_pos)
    then have "2 ^ 53 - 1 / 2 \<le> t" using Mt by linarith
    then have "(2 ^ 53 - 1 / 2) * 2 ^ 971 \<le> t * 2 ^ 971"
      using c3 by (simp only: mult_le_cancel_right_pos)
    then show "2 ^ 1024 - 2 ^ 970 \<le> \<bar>x\<bar>"
      using t(3) q' c2 by (simp add: ax_def)
  next
    assume "2 ^ 1024 - 2 ^ 970 \<le> \<bar>x\<bar>"
    then have lo: "(2 ^ 53 - 1 / 2) * 2 ^ 971 \<le> ax" using c2 by (simp add: ax_def)
    have "(2::real) ^ 1023 \<le> (2 ^ 53 - 1 / 2) * 2 ^ 971" by simp
    with lo up have "(2::real) powi 1023 < 2 powi (e + 1)" by simp
    have "e = 1023"
    proof (rule ccontr)
      assume "e \<noteq> 1023"
      with e_le have "(2::real) powi (e + 1) \<le> 2 powi 1023"
        by (intro power_int_increasing) auto
      with \<open>(2::real) powi 1023 < 2 powi (e + 1)\<close> show False by simp
    qed
    then have q': "q = 2 ^ 971" by (rule q971)
    have "(2 ^ 53 - 1 / 2) * 2 ^ 971 \<le> t * 2 ^ 971" using lo t(3) q' by simp
    then have tl: "2 ^ 53 - 1 / 2 \<le> t" using c3 by (simp only: mult_le_cancel_right_pos)
    have "round_half_even t = 2 ^ 53"
    proof (rule round_half_even_unique)
      show "\<bar>real_of_int (2 ^ 53) - t\<bar> \<le> 1 / 2" using tl t(2) by simp
      show "\<bar>real_of_int (2 ^ 53) - t\<bar> = 1 / 2 \<longrightarrow> even ((2::int) ^ 53)" by simp
    qed
    then have "M = 2 ^ 53" by (simp add: M_def t_def)
    then have "real_of_int M * q = 2 ^ 1024" using q' c1 by simp
    with inf_iff show "rnd x = PInf \<or> rnd x = NInf" by simp
  qed
qed

subsection \<open>The arithmetic of Python's numbers\<close>

lemma rnd_one: "rnd 1 = Fin 1"
  by (simp add: rnd_def binade_def round_half_even_def)

lemma to_double_one: "to_double (PyInt 1) = Inr (Fin 1)"
  by (simp add: to_double_def rnd_one)

lemma rnd_result:
  "(case rnd x of Fin v \<Rightarrow> Inr (PyFloat (Fin v)) | _ \<Rightarrow> Inl OverflowError) =
   (if 2 ^ 1024 - 2 ^ 970 \<le> \<bar>x\<bar> then Inl OverflowError else Inr (PyFloat (rnd x)))"
  using rnd_overflow_iff [of x] rnd_not_nan [of x] by (cases "rnd x") (simp_all del: power_numeral)

lemma py_sub_one: "\<exists>r. py_sub (PyInt 1) payout_ratio = Inr r"
  by (cases payout_ratio) (simp_all add: float_op_def to_double_one, simp add: to_double_def)

lemma py_add_one_float: "py_add (PyInt 1) (PyFloat d) = Inr (PyFloat (fl_add (Fin 1) d))"
  by (simp add: float_op_def to_double_one, simp add: to_double_def)

lemma to_double_int_nonzero: "n \<noteq> 0 \<Longrightarrow> to_double (PyInt n) \<noteq> Inr (Fin 0)"
proof -
  assume "n \<noteq> 0"
  then have "1 \<le> \<bar>n\<bar>" by linarith
  then have "1 \<le> \<bar>real_of_int n\<bar>" by (simp flip: of_int_abs)
  moreover have "1 / 2 ^ 1075 < (1::real)" by simp
  ultimately have "\<not> \<bar>real_of_int n\<bar> \<le> 1 / 2 ^ 1075" by linarith
  then have "rnd (of_int n) \<noteq> Fin 0" by (simp only: rnd_zero_iff not_False_eq_True)
  then show ?thesis by (cases "rnd (of_int n)") (simp_all add: to_double_def)
qed

lemma py_truediv_nonzero:
  assumes "\<not> py_is_zero forward_eps"
  shows "py_truediv current_price forward_eps \<noteq> Inl ZeroDivisionError"
proof (cases forward_eps)
  case (PyInt n)
  with assms have n: "n \<noteq> 0" by (simp add: py_is_zero_def)
  show ?thesis
  proof (cases current_price)
    case (PyInt m)
    then show ?thesis using n \<open>forward_eps = PyInt n\<close>
      by (cases "rnd (of_int m / of_int n)") simp_all
  next
    case (PyFloat a)
    then show ?thesis using to_double_int_nonzero [OF n] \<open>forward_eps = PyInt n\<close>
      by (cases "rnd (of_int n)") (simp_all add: float_op_def float_div_def to_double_def)
  qed
next
  case (PyFloat b)
  with assms have b: "b \<noteq> Fin 0" by (simp add: py_is_zero_def)
  show ?thesis
  proof (cases current_price)
    case (PyInt m)
    then show ?thesis using b \<open>forward_eps = PyFloat b\<close>
      by (cases "rnd (of_int m)") (simp_all add: float_op_def float_div_def to_double_def)
  next
    case (PyFloat a)
    then show ?thesis using b \<open>forward_eps = PyFloat b\<close>
      by (simp add: float_op_def float_div_def to_double_def)
  qed
qed

lemma calculate_implied_pe_py_steps:
  assumes "py_add (PyInt 1) growth_rate = Inr grown" and "py_mul current_eps grown = Inr forward_eps"
  shows "calculate_implied_pe_py current_price current_eps growth_rate payout_ratio =
    py_truediv current_price forward_eps"
  using py_sub_one [of payout_ratio] assms by (auto simp: calculate_implied_pe_py_def)


subsection \<open>The labels\<close>

lemma format_all_labels:
  "format_all xs = Inr labels \<Longrightarrow> list_all2 (\<lambda>x label. format_pct x = Inr label) xs labels"
  by (induction xs arbitrary: labels) (auto split: sum.splits)

lemma round_half_even_nonneg: "0 \<le> y \<Longrightarrow> 0 \<le> round_half_even y"
  using round_half_even_abs [of y] by simp

lemma digit_char_code: "d < 10 \<Longrightarrow> of_char (digit_char d) = 48 + d"
proof -
  assume "d < 10"
  then have "d \<in> {0, 1, 2, 3, 4, 5, 6, 7, 8, 9}" by auto
  then show ?thesis by (auto simp: digit_char_def)
qed

lemma dec_value_snoc: "d < 10 \<Longrightarrow> dec_value (s @ [digit_char d]) = 10 * dec_value s + d"
  by (simp add: dec_value_def digit_char_code)

lemma dec_value_str_nat: "dec_value (str_nat n) = n"
proof (induction n rule: str_nat.induct)
  case (1 n)
  show ?case
  proof (cases "n < 10")
    case True
    then have "dec_value (str_nat n) = dec_value ([] @ [digit_char n])"
      by (subst str_nat.simps) simp
    also have "\<dots> = n" using True by (subst dec_value_snoc) (simp_all add: dec_value_def)
    finally show ?thesis .
  next
    case False
    then have "dec_value (str_nat n) = dec_value (str_nat (n div 10) @ [digit_char (n mod 10)])"
      by (subst str_nat.simps) simp
    also have "\<dots> = 10 * dec_value (str_nat (n div 10)) + n mod 10"
      by (rule dec_value_snoc) simp
    also have "\<dots> = n" using False by (simp add: "1.IH")
    finally show ?thesis .
  qed
qed

lemma format_fixed1_nearest:
  "\<exists>t::nat. format_fixed1 v =
       (if v < 0 then ''-'' else '''') @ str_nat (t div 10) @ ''.'' @ [digit_char (t mod 10)] \<and>
     \<bar>real t - \<bar>v\<bar> * 10\<bar> \<le> 1 / 2 \<and> (\<bar>real t - \<bar>v\<bar> * 10\<bar> = 1 / 2 \<longrightarrow> even t)"
proof -
  let ?r = "round_half_even (\<bar>v\<bar> * 10)"
  let ?t = "nat ?r"
  have nn: "0 \<le> ?r" by (rule round_half_even_nonneg) simp
  then have rt: "real ?t = real_of_int ?r" by simp
  have "format_fixed1 v =
      (if v < 0 then ''-'' else '''') @ str_nat (?t div 10) @ ''.'' @ [digit_char (?t mod 10)]"
    by (simp add: format_fixed1_def Let_def)
  moreover have "\<bar>real ?t - \<bar>v\<bar> * 10\<bar> \<le> 1 / 2"
    unfolding rt by (rule round_half_even_close)
  moreover have "\<bar>real ?t - \<bar>v\<bar> * 10\<bar> = 1 / 2 \<longrightarrow> even ?t"
    unfolding rt using round_half_even_tie [of "\<bar>v\<bar> * 10"] nn by (simp add: even_nat_iff)
  ultimately show ?thesis by blast
qed


subsection \<open>Evaluation\<close>

lemmas py_eval = rnd_def binade_def round_half_even_def to_double_def float_op_def float_div_def
  float_literal_def fl_negative_def fl_neg_def


lemmas fmt_eval = format_pct_def format_float_pct_def format_fixed1_def py_eval str_nat.simps
  digit_char_def


section \<open>The claims about \<^verbatim>\<open>calculate_implied_pe\<close>\<close>



text \<open>
  Claim C5. With a growth rate of \<open>-1\<close> and a nonzero EPS, and more generally whenever the
  forward EPS is zero, \<open>calculate_implied_pe\<close> raises \<^verbatim>\<open>ZeroDivisionError\<close>: no value is
  returned in its place.
\<close>

theorem implied_pe_zero_division:
  "(current_eps \<noteq> 0 \<longrightarrow>
      calculate_implied_pe current_price current_eps (- 1) payout_ratio = Inl ZeroDivisionError) \<and>
   (current_eps * (1 + growth_rate) = 0 \<longrightarrow>
      calculate_implied_pe current_price current_eps growth_rate payout_ratio = Inl ZeroDivisionError)"
  by (simp add: calculate_implied_pe_def)

theorem implied_pe_zero_division_witness:
  "(5::real) \<noteq> 0 \<and> calculate_implied_pe 100 5 (- 1) (3 / 10) = Inl ZeroDivisionError \<and>
   (0::real) * (1 + 1 / 10) = 0 \<and> calculate_implied_pe 100 0 (1 / 10) (3 / 10) = Inl ZeroDivisionError"
  using implied_pe_zero_division [of 5 100 "3 / 10" "- 1"]
    implied_pe_zero_division [of 0 100 "3 / 10" "1 / 10"] by simp

text \<open>
  Claim C6. When the forward EPS is not zero, two calls of \<open>calculate_implied_pe\<close> that
  differ only in the payout ratio return the same value: the payout ratio has no effect.
\<close>

theorem payout_ratio_no_effect:
  "current_eps * (1 + growth_rate) \<noteq> 0 \<Longrightarrow>
   calculate_implied_pe current_price current_eps growth_rate p1 =
     calculate_implied_pe current_price current_eps growth_rate p2"
  by (simp add: calculate_implied_pe_def)

theorem payout_ratio_no_effect_witness:
  "(5::real) * (1 + 1 / 10) \<noteq> 0 \<and>
   calculate_implied_pe 100 5 (1 / 10) (3 / 10) = calculate_implied_pe 100 5 (1 / 10) 0 \<and>
   calculate_implied_pe 100 5 (1 / 10) 0 = Inr (200 / 11)"
  using payout_ratio_no_effect [of 5 "1 / 10" 100 "3 / 10" 0]
  by (simp add: calculate_implied_pe_def)

text \<open>
  Claim C10, as stated: whatever the sign and the magnitude of the arguments, a call whose
  forward EPS \<open>eps * (1 + growth_rate)\<close> is not zero succeeds, and the division by zero is
  out of reach. Sign is indeed not checked, but magnitude matters to Python's arithmetic:
  with the int price \<^verbatim>\<open>10**400\<close>, EPS 1 and growth rate 0 the quotient is too large for a
  float and the call raises \<^verbatim>\<open>OverflowError\<close>; with EPS \<^verbatim>\<open>5e-324\<close> and growth rate \<^verbatim>\<open>-0.5\<close>
  the forward EPS rounds to \<^verbatim>\<open>0.0\<close> and the call raises \<^verbatim>\<open>ZeroDivisionError\<close>.
\<close>

theorem implied_pe_py_magnitude:
  "(1::int) * (1 + 0) \<noteq> 0 \<and>
   calculate_implied_pe_py (PyInt (10 ^ 400)) (PyInt 1) (PyInt 0) (PyInt 0) = Inl OverflowError \<and>
   (1 / 2 ^ 1074) * (1 + - 1 / 2) \<noteq> (0::real) \<and>
   calculate_implied_pe_py (PyInt 100) (PyFloat (Fin (1 / 2 ^ 1074))) (PyFloat (Fin (- 1 / 2))) (PyInt 0) =
     Inl ZeroDivisionError"
  by (simp add: calculate_implied_pe_py_def py_eval)


text \<open>
  Claim C10, amended, on Python's own numbers (\<open>calculate_implied_pe_py\<close>): the method
  checks neither the sign nor the magnitude of its arguments, and its only failures are those of Python's arithmetic. Whenever the
  forward EPS that Python computes is not zero, the call raises no \<^verbatim>\<open>ZeroDivisionError\<close>: it
  is the quotient of the price by that forward EPS as Python computes it. For int arguments
  with \<open>eps * (1 + growth_rate)\<close> not zero, of any sign and size, it returns the float
  nearest to the exact quotient, or raises \<^verbatim>\<open>OverflowError\<close> when the quotient is
  \<open>2 ^ 1024 - 2 ^ 970\<close> or more in magnitude. For finite float arguments it raises
  \<^verbatim>\<open>ZeroDivisionError\<close> exactly when the product of the EPS and the float \<^verbatim>\<open>1 + growth_rate\<close> is
  \<open>1 / 2 ^ 1075\<close> or less in magnitude, zero or not, and otherwise returns the float
  quotient.
\<close>

theorem implied_pe_py_no_validation:
  "(py_add (PyInt 1) growth_rate = Inr grown \<and> py_mul current_eps grown = Inr forward_eps \<and>
      \<not> py_is_zero forward_eps \<longrightarrow>
      calculate_implied_pe_py current_price current_eps growth_rate payout_ratio =
        py_truediv current_price forward_eps \<and>
      calculate_implied_pe_py current_price current_eps growth_rate payout_ratio \<noteq> Inl ZeroDivisionError) \<and>
   (eps * (1 + growth) \<noteq> 0 \<longrightarrow>
      calculate_implied_pe_py (PyInt price) (PyInt eps) (PyInt growth) payout_ratio =
        (if 2 ^ 1024 - 2 ^ 970 \<le> \<bar>real_of_int price / real_of_int (eps * (1 + growth))\<bar>
         then Inl OverflowError
         else Inr (PyFloat (rnd (real_of_int price / real_of_int (eps * (1 + growth))))))) \<and>
   (fl_add (Fin 1) (Fin g) = Fin s \<longrightarrow>
      calculate_implied_pe_py (PyFloat (Fin p)) (PyFloat (Fin e)) (PyFloat (Fin g)) payout_ratio =
        (if \<bar>e * s\<bar> \<le> 1 / 2 ^ 1075 then Inl ZeroDivisionError
         else Inr (PyFloat (fl_div (Fin p) (rnd (e * s))))))"
proof (intro conjI impI)
  assume a: "py_add (PyInt 1) growth_rate = Inr grown \<and> py_mul current_eps grown = Inr forward_eps \<and>
      \<not> py_is_zero forward_eps"
  then show "calculate_implied_pe_py current_price current_eps growth_rate payout_ratio =
        py_truediv current_price forward_eps"
    by (simp add: calculate_implied_pe_py_steps)
  with a show "calculate_implied_pe_py current_price current_eps growth_rate payout_ratio \<noteq> Inl ZeroDivisionError"
    by (simp add: py_truediv_nonzero)
next
  assume nz: "eps * (1 + growth) \<noteq> 0"
  have "py_add (PyInt 1) (PyInt growth) = Inr (PyInt (1 + growth))"
    by (simp only: py_add.simps)
  moreover have "py_mul (PyInt eps) (PyInt (1 + growth)) = Inr (PyInt (eps * (1 + growth)))"
    by (simp only: py_mul.simps)
  ultimately have "calculate_implied_pe_py (PyInt price) (PyInt eps) (PyInt growth) payout_ratio =
      py_truediv (PyInt price) (PyInt (eps * (1 + growth)))"
    by (rule calculate_implied_pe_py_steps)
  also have "\<dots> = (case rnd (real_of_int price / real_of_int (eps * (1 + growth))) of
      Fin v \<Rightarrow> Inr (PyFloat (Fin v)) | _ \<Rightarrow> Inl OverflowError)"
    using nz by (simp only: py_truediv.simps if_False)
  finally show "calculate_implied_pe_py (PyInt price) (PyInt eps) (PyInt growth) payout_ratio =
        (if 2 ^ 1024 - 2 ^ 970 \<le> \<bar>real_of_int price / real_of_int (eps * (1 + growth))\<bar>
         then Inl OverflowError
         else Inr (PyFloat (rnd (real_of_int price / real_of_int (eps * (1 + growth))))))"
    by (simp only: rnd_result)
next
  assume s: "fl_add (Fin 1) (Fin g) = Fin s"
  have "py_add (PyInt 1) (PyFloat (Fin g)) = Inr (PyFloat (Fin s))"
    by (simp only: py_add_one_float s)
  moreover have "py_mul (PyFloat (Fin e)) (PyFloat (Fin s)) = Inr (PyFloat (rnd (e * s)))"
    by (simp add: float_op_def to_double_def)
  ultimately have "calculate_implied_pe_py (PyFloat (Fin p)) (PyFloat (Fin e)) (PyFloat (Fin g)) payout_ratio =
      py_truediv (PyFloat (Fin p)) (PyFloat (rnd (e * s)))"
    by (rule calculate_implied_pe_py_steps)
  also have "\<dots> = (if rnd (e * s) = Fin 0 then Inl ZeroDivisionError
      else Inr (PyFloat (fl_div (Fin p) (rnd (e * s)))))"
    by (simp add: float_op_def float_div_def to_double_def)
  finally show "calculate_implied_pe_py (PyFloat (Fin p)) (PyFloat (Fin e)) (PyFloat (Fin g)) payout_ratio =
        (if \<bar>e * s\<bar> \<le> 1 / 2 ^ 1075 then Inl ZeroDivisionError
         else Inr (PyFloat (fl_div (Fin p) (rnd (e * s)))))"
    by (simp only: rnd_zero_iff)
qed

theorem implied_pe_py_no_validation_witness:
  "calculate_implied_pe_py (PyInt (- 100)) (PyInt (- 5)) (PyInt (- 3)) (PyInt 7) = Inr (PyFloat (Fin (- 10))) \<and>
   calculate_implied_pe_py (PyFloat (Fin 100)) (PyFloat (Fin (1 / 2 ^ 1074))) (PyFloat (Fin (- 1 / 2))) (PyInt 0) =
     Inl ZeroDivisionError \<and>
   calculate_implied_pe_py (PyInt 100) (PyInt 5) (float_literal (1 / 10)) (float_literal (3 / 10)) =
     Inr (PyFloat (Fin (5117726849284655 / 281474976710656)))"
proof (intro conjI)
  have "(- 5 :: int) * (1 + - 3) \<noteq> 0" by simp
  then have "calculate_implied_pe_py (PyInt (- 100)) (PyInt (- 5)) (PyInt (- 3)) (PyInt 7) =
      (if 2 ^ 1024 - 2 ^ 970 \<le> \<bar>real_of_int (- 100) / real_of_int (- 5 * (1 + - 3))\<bar>
       then Inl OverflowError
       else Inr (PyFloat (rnd (real_of_int (- 100) / real_of_int (- 5 * (1 + - 3))))))"
    by (rule implied_pe_py_no_validation [THEN conjunct2, THEN conjunct1, rule_format])
  then show "calculate_implied_pe_py (PyInt (- 100)) (PyInt (- 5)) (PyInt (- 3)) (PyInt 7) =
      Inr (PyFloat (Fin (- 10)))"
    by (simp add: py_eval)
next
  have "fl_add (Fin 1) (Fin (- 1 / 2)) = Fin (1 / 2)" by (simp add: py_eval)
  then have "calculate_implied_pe_py (PyFloat (Fin 100)) (PyFloat (Fin (1 / 2 ^ 1074)))
        (PyFloat (Fin (- 1 / 2))) (PyInt 0) =
      (if \<bar>1 / 2 ^ 1074 * (1 / 2 :: real)\<bar> \<le> 1 / 2 ^ 1075 then Inl ZeroDivisionError
       else Inr (PyFloat (fl_div (Fin 100) (rnd (1 / 2 ^ 1074 * (1 / 2))))))"
    by (rule implied_pe_py_no_validation [THEN conjunct2, THEN conjunct2, rule_format])
  then show "calculate_implied_pe_py (PyFloat (Fin 100)) (PyFloat (Fin (1 / 2 ^ 1074)))
        (PyFloat (Fin (- 1 / 2))) (PyInt 0) = Inl ZeroDivisionError"
    by simp
next
  let ?growth = "float_literal (1 / 10)"
  let ?grown = "PyFloat (Fin (2476979795053773 / 2 ^ 51))"
  let ?forward = "PyFloat (Fin (11 / 2))"
  have g: "py_add (PyInt 1) ?growth = Inr ?grown" by (simp add: py_eval)
  have f: "py_mul (PyInt 5) ?grown = Inr ?forward" by (simp add: py_eval)
  have z: "\<not> py_is_zero ?forward" by (simp add: py_is_zero_def)
  have "calculate_implied_pe_py (PyInt 100) (PyInt 5) ?growth (float_literal (3 / 10)) =
      py_truediv (PyInt 100) ?forward"
    using implied_pe_py_no_validation [THEN conjunct1, rule_format, OF conjI [OF g conjI [OF f z]]]
    by (rule conjunct1)
  then show "calculate_implied_pe_py (PyInt 100) (PyInt 5) ?growth (float_literal (3 / 10)) =
      Inr (PyFloat (Fin (5117726849284655 / 281474976710656)))"
    by (simp add: py_eval)
qed

section \<open>The claims about \<^verbatim>\<open>calculate_industry_implied_pe\<close>\<close>

text \<open>
  Claim C2, as stated: on an empty peer mapping the method raises an empty-input error
  and returns nothing. It does not: the loop body never runs, and \<^verbatim>\<open>np.median\<close> of the
  empty list of values is \<^verbatim>\<open>nan\<close>, which the method returns.
\<close>

theorem industry_empty_no_error: "\<not> isl (calculate_industry_implied_pe [])"
  by (simp add: calculate_industry_implied_pe_def)

text \<open>
  Claim C2, amended: on an empty peer mapping the method raises nothing and returns an
  empty mapping of individual multiples together with the median \<^verbatim>\<open>nan\<close>.
\<close>

theorem industry_empty_nan:
  "calculate_industry_implied_pe [] = Inr \<lparr>individual_multiples = [], median_pe = NaN\<rparr>"
  by (simp add: calculate_industry_implied_pe_def dict_values_def np_median_def np_mean_def
      py_slice_def slice_bound_def)



text \<open>
  Claim C7. For a non-empty peer mapping with all forward EPS nonzero, the method
  returns the same median on every permutation of the mapping's entries.
\<close>

theorem median_permutation_invariant:
  assumes "peer_data \<noteq> []"
    and "distinct (map fst peer_data)"
    and "\<forall>(company, price, eps, growth)\<in>set peer_data. eps * (1 + growth) \<noteq> 0"
    and "mset permuted = mset peer_data"
  shows "\<exists>r r'. calculate_industry_implied_pe peer_data = Inr r \<and>
           calculate_industry_implied_pe permuted = Inr r' \<and>
           median_pe r' = median_pe r"
proof -
  have "mset (map fst permuted) = mset (map fst peer_data)"
    using assms(4) by simp
  then have d: "distinct (map fst permuted)"
    using assms(2) mset_eq_imp_distinct_iff by blast
  have "set permuted = set peer_data"
    using assms(4) by (rule mset_eq_setD)
  then have nz: "\<forall>(company, price, eps, growth)\<in>set permuted. eps * (1 + growth) \<noteq> 0"
    using assms(3) by simp
  have "mset (map snd (map pe_entry permuted)) = mset (map snd (map pe_entry peer_data))"
    using assms(4) by simp
  then have "np_median (map snd (map pe_entry permuted)) = np_median (map snd (map pe_entry peer_data))"
    by (rule np_median_mset)
  then show ?thesis
    using industry_ok [OF assms(2,3)] industry_ok [OF d nz] by simp
qed

theorem median_permutation_invariant_witness:
  "\<exists>r r'. calculate_industry_implied_pe [(''A'', 100, 5, 1 / 10), (''B'', 80, 4, 2 / 25), (''C'', 120, 6, 3 / 25), (''D'', 50, 2, 0)] = Inr r \<and>
     calculate_industry_implied_pe [(''D'', 50, 2, 0), (''C'', 120, 6, 3 / 25), (''A'', 100, 5, 1 / 10), (''B'', 80, 4, 2 / 25)] = Inr r' \<and>
     median_pe r' = median_pe r \<and> individual_multiples r' \<noteq> individual_multiples r"
proof -
  let ?data = "[(''A'', 100, 5, 1 / 10), (''B'', 80, 4, 2 / 25), (''C'', 120, 6, 3 / 25), (''D'', 50, 2, 0 :: real)]"
  let ?perm = "[(''D'', 50, 2, 0), (''C'', 120, 6, 3 / 25), (''A'', 100, 5, 1 / 10), (''B'', 80, 4, 2 / 25 :: real)]"
  have h1: "?data \<noteq> []" by simp
  have h2: "distinct (map fst ?data)" by simp
  have h3: "\<forall>(company, price, eps, growth)\<in>set ?data. eps * (1 + growth) \<noteq> 0" by simp
  have h4: "mset ?perm = mset ?data" by (simp add: add_mset_commute)
  obtain r r' where r: "calculate_industry_implied_pe ?data = Inr r"
    "calculate_industry_implied_pe ?perm = Inr r'" "median_pe r' = median_pe r"
    using median_permutation_invariant [OF h1 h2 h3 h4] by blast
  have "individual_multiples r' \<noteq> individual_multiples r"
    using r(1,2) by (auto simp: calculate_industry_implied_pe_def calculate_implied_pe_def)
  with r show ?thesis by blast
qed

text \<open>
  Claim C8. When at least one peer has a zero forward EPS, the whole call raises
  \<^verbatim>\<open>ZeroDivisionError\<close>: the result carries no mapping, not even of the peers visited
  before the failing one.
\<close>

theorem industry_zero_division:
  "\<exists>(company, price, eps, growth)\<in>set peer_data. eps * (1 + growth) = 0 \<Longrightarrow>
   calculate_industry_implied_pe peer_data = Inl ZeroDivisionError"
  by (simp add: calculate_industry_implied_pe_def pe_loop_zero)

theorem industry_zero_division_witness:
  "(\<exists>(company, price, eps, growth)\<in>set [(''A'', 100, 5, 1 / 10), (''B'', 80, 4, - 1), (''C'', 120, 6, 3 / 25 :: real)].
      eps * (1 + growth) = 0) \<and>
   calculate_industry_implied_pe [(''A'', 100, 5, 1 / 10), (''B'', 80, 4, - 1), (''C'', 120, 6, 3 / 25)]
     = Inl ZeroDivisionError"
  using industry_zero_division [of "[(''A'', 100, 5, 1 / 10), (''B'', 80, 4, - 1), (''C'', 120, 6, 3 / 25)]"]
  by simp

section \<open>The claims about \<^verbatim>\<open>sensitivity_analysis\<close>\<close>




text \<open>
  Claim C9, on Python's own numbers (\<open>sensitivity_analysis_py\<close>). The row labels of a
  returned grid are the growth rates, and its column labels the payout ratios, each
  formatted by \<^verbatim>\<open>.1%\<close> and in input order. For a finite float
  whose percentage is finite the label is a sign, the decimal digits of a whole part, a
  point, one digit and \<^verbatim>\<open>%\<close>, the number so written being the multiple of one tenth nearest
  to the percentage, the even one at a tie; \<open>str_nat\<close> writes the decimal digits of a
  number; and \<^verbatim>\<open>0.10\<close> is formatted as \<^verbatim>\<open>10.0%\<close>.
\<close>

theorem sensitivity_labels_py:
  "(\<forall>df. sensitivity_analysis_py current_price current_eps growth_rates payout_ratios = Inr df \<longrightarrow>
      list_all2 (\<lambda>growth label. format_pct growth = Inr label) growth_rates (pdf_index df) \<and>
      list_all2 (\<lambda>payout label. format_pct payout = Inr label) payout_ratios (pdf_columns df)) \<and>
   (\<forall>x v. fl_mul (Fin x) (Fin 100) = Fin v \<longrightarrow>
      (\<exists>t::nat. format_pct (PyFloat (Fin x)) =
           Inr ((if v < 0 then ''-'' else '''') @ str_nat (t div 10) @ ''.'' @
                [digit_char (t mod 10)] @ ''%'') \<and>
         \<bar>real t - \<bar>v\<bar> * 10\<bar> \<le> 1 / 2 \<and> (\<bar>real t - \<bar>v\<bar> * 10\<bar> = 1 / 2 \<longrightarrow> even t))) \<and>
   (\<forall>n. dec_value (str_nat n) = n) \<and>
   format_pct (float_literal (1 / 10)) = Inr ''10.0%''"
proof (intro conjI allI impI)
  fix df
  assume "sensitivity_analysis_py current_price current_eps growth_rates payout_ratios = Inr df"
  then have "format_all growth_rates = Inr (pdf_index df) \<and> format_all payout_ratios = Inr (pdf_columns df)"
    by (auto simp: sensitivity_analysis_py_def split: sum.splits)
  then show "list_all2 (\<lambda>growth label. format_pct growth = Inr label) growth_rates (pdf_index df)"
    and "list_all2 (\<lambda>payout label. format_pct payout = Inr label) payout_ratios (pdf_columns df)"
    by (simp_all add: format_all_labels)
next
  fix x v
  assume v: "fl_mul (Fin x) (Fin 100) = Fin v"
  obtain t :: nat where t: "format_fixed1 v =
       (if v < 0 then ''-'' else '''') @ str_nat (t div 10) @ ''.'' @ [digit_char (t mod 10)]"
     "\<bar>real t - \<bar>v\<bar> * 10\<bar> \<le> 1 / 2" "\<bar>real t - \<bar>v\<bar> * 10\<bar> = 1 / 2 \<longrightarrow> even t"
    using format_fixed1_nearest [of v] by blast
  have "format_pct (PyFloat (Fin x)) = Inr (format_fixed1 v @ ''%'')"
    using v by (simp add: format_pct_def to_double_def format_float_pct_def)
  with t show "\<exists>t::nat. format_pct (PyFloat (Fin x)) =
           Inr ((if v < 0 then ''-'' else '''') @ str_nat (t div 10) @ ''.'' @
                [digit_char (t mod 10)] @ ''%'') \<and>
         \<bar>real t - \<bar>v\<bar> * 10\<bar> \<le> 1 / 2 \<and> (\<bar>real t - \<bar>v\<bar> * 10\<bar> = 1 / 2 \<longrightarrow> even t)"
    by (intro exI [of _ t]) simp
next
  fix n show "dec_value (str_nat n) = n" by (rule dec_value_str_nat)
next
  show "format_pct (float_literal (1 / 10)) = Inr ''10.0%''"
    by (simp add: format_pct_def format_float_pct_def format_fixed1_def py_eval str_nat.simps digit_char_def)
qed


theorem sensitivity_labels_py_witness:
  "(\<exists>df. sensitivity_analysis_py (PyInt 100) (PyInt 5)
          [float_literal (13 / 2000), float_literal (111 / 2000)]
          [float_literal (1 / 16), float_literal (3 / 16), PyInt 1] = Inr df \<and>
      pdf_index df = [''0.7%'', ''5.5%''] \<and>
      pdf_columns df = [''6.2%'', ''18.8%'', ''100.0%'']) \<and>
   format_pct (float_literal (1299 / 10000)) = Inr ''13.0%'' \<and>
   format_pct (float_literal (- 1 / 2500)) = Inr ''-0.0%''"
proof (intro conjI)
  let ?gs = "[float_literal (13 / 2000), float_literal (111 / 2000)]"
  let ?ps = "[float_literal (1 / 16), float_literal (3 / 16), PyInt 1]"
  have "\<exists>df. sensitivity_analysis_py (PyInt 100) (PyInt 5) ?gs ?ps = Inr df"
    by (simp add: sensitivity_analysis_py_def calculate_implied_pe_py_def fmt_eval)
  then obtain df where df: "sensitivity_analysis_py (PyInt 100) (PyInt 5) ?gs ?ps = Inr df" ..
  from sensitivity_labels_py [THEN conjunct1, rule_format, OF df]
  have l: "list_all2 (\<lambda>growth label. format_pct growth = Inr label) ?gs (pdf_index df)"
    "list_all2 (\<lambda>payout label. format_pct payout = Inr label) ?ps (pdf_columns df)"
    by simp_all
  have f: "format_pct (float_literal (13 / 2000)) = Inr ''0.7%''"
    "format_pct (float_literal (111 / 2000)) = Inr ''5.5%''"
    "format_pct (float_literal (1 / 16)) = Inr ''6.2%''"
    "format_pct (float_literal (3 / 16)) = Inr ''18.8%''"
    "format_pct (PyInt 1) = Inr ''100.0%''"
    by (simp_all add: fmt_eval)
  from l(1) have "pdf_index df = [''0.7%'', ''5.5%'']"
    by (auto simp: list_all2_Cons1 f)
  moreover from l(2) have "pdf_columns df = [''6.2%'', ''18.8%'', ''100.0%'']"
    by (auto simp: list_all2_Cons1 f)
  ultimately show "\<exists>df. sensitivity_analysis_py (PyInt 100) (PyInt 5) ?gs ?ps = Inr df \<and>
      pdf_index df = [''0.7%'', ''5.5%''] \<and> pdf_columns df = [''6.2%'', ''18.8%'', ''100.0%'']"
    using df by blast
next
  show "format_pct (float_literal (1299 / 10000)) = Inr ''13.0%''" by (simp add: fmt_eval)
next
  show "format_pct (float_literal (- 1 / 2500)) = Inr ''-0.0%''" by (simp add: fmt_eval)
qed

end
